theory Spec2Isabelle
  imports Main "HOL-Library.Word"
begin

section \<open>Python values used by the bot\<close>

text \<open>
  The bot (\<^verbatim>\<open>Image_king_bot.py\<close>) is a Telegram conversation: every handler reads the
  incoming text or button payload, reads and writes the per-user dictionary
  \<^verbatim>\<open>context.user_data\<close>, sends messages, and returns the next conversation state.

  A Python \<^verbatim>\<open>str\<close> is a sequence of Unicode code points, so it is a list of naturals
  here (the messages of the bot contain code points beyond one byte, and
  \<^verbatim>\<open>str.strip\<close> removes white space beyond ASCII). A Python \<^verbatim>\<open>bytes\<close> object is a
  list of octets. \<open>ustr\<close> turns an ASCII literal into its code points.
\<close>

type_synonym pystr = "nat list"

type_synonym bytes = "8 word list"

definition ustr :: "string \<Rightarrow> pystr" where
  "ustr s = map of_char s"

text \<open>
  \<^verbatim>\<open>str.isspace\<close> on one code point, as CPython decides it for \<^verbatim>\<open>str.strip()\<close>:
  U+0009..U+000D, U+001C..U+0020, U+0085, U+00A0, U+1680, U+2000..U+200A, U+2028, U+2029,
  U+202F, U+205F and U+3000.
\<close>

definition isspace :: "nat \<Rightarrow> bool" where
  "isspace c \<longleftrightarrow>
     (0x09 \<le> c \<and> c \<le> 0x0D) \<or> (0x1C \<le> c \<and> c \<le> 0x20) \<or> c = 0x85 \<or> c = 0xA0 \<or>
     c = 0x1680 \<or> (0x2000 \<le> c \<and> c \<le> 0x200A) \<or> c = 0x2028 \<or> c = 0x2029 \<or>
     c = 0x202F \<or> c = 0x205F \<or> c = 0x3000"

text \<open>\<^verbatim>\<open>s.strip()\<close>: leading and trailing white space removed.\<close>

definition strip :: "pystr \<Rightarrow> pystr" where
  "strip s = rev (dropWhile isspace (rev (dropWhile isspace s)))"

text \<open>\<^verbatim>\<open>s.startswith(p)\<close>.\<close>

definition startswith :: "pystr \<Rightarrow> pystr \<Rightarrow> bool" where
  "startswith s p \<longleftrightarrow> take (length p) s = p"

text \<open>
  \<^verbatim>\<open>s.split(c, 1)\<close> for a one-character separator: the parts before and after the first
  occurrence, or the whole string alone when the separator does not occur.
\<close>

definition split_once :: "nat \<Rightarrow> pystr \<Rightarrow> pystr list" where
  "split_once c s =
     (if c \<in> set s
      then [takeWhile (\<lambda>x. x \<noteq> c) s, tl (dropWhile (\<lambda>x. x \<noteq> c) s)]
      else [s])"

text \<open>\<^verbatim>\<open>s.split(c)\<close> for a one-character separator: split at every occurrence.\<close>

fun split_all :: "nat \<Rightarrow> pystr \<Rightarrow> pystr list" where
  "split_all c [] = [[]]"
| "split_all c (x # xs) =
     (if x = c then [] # split_all c xs
      else (case split_all c xs of
              [] \<Rightarrow> [[x]]
            | p # ps \<Rightarrow> (x # p) # ps))"

text \<open>\<^verbatim>\<open>str(n)\<close> for an integer: decimal digits, with a minus sign when negative.\<close>

fun str_nat :: "nat \<Rightarrow> pystr" where
  "str_nat n = (if n < 10 then [48 + n] else str_nat (n div 10) @ [48 + n mod 10])"

declare str_nat.simps [simp del]

definition str_int :: "int \<Rightarrow> pystr" where
  "str_int i = (if i < 0 then 45 # str_nat (nat (- i)) else str_nat (nat i))"

datatype py_error = ValueError | IndexError

text \<open>\<^verbatim>\<open>xs[1]\<close>: the second element, or IndexError.\<close>

definition index1 :: "'a list \<Rightarrow> py_error + 'a" where
  "index1 xs = (case xs of _ # y # _ \<Rightarrow> Inr y | _ \<Rightarrow> Inl IndexError)"

text \<open>
  A value parsed from JSON by \<^verbatim>\<open>r.json()\<close>: \<^verbatim>\<open>None\<close>, a bool, an int, a float (kept
  as its literal, the code never looks into one), a str, a list or a dict. A dict is an
  association list read with \<open>map_of\<close>.
\<close>

datatype json =
    JNull
  | JBool bool
  | JInt int
  | JFloat pystr
  | JStr pystr
  | JList "json list"
  | JDict "(pystr \<times> json) list"

section \<open>Constants of the bot\<close>

text \<open>\<^verbatim>\<open>ALLOWED_DIMS\<close>, the sizes offered as buttons.\<close>

definition ALLOWED_DIMS :: "pystr list" where
  "ALLOWED_DIMS =
     [ustr ''1024x1024'', ustr ''1152x896'', ustr ''1216x832'', ustr ''1344x768'',
      ustr ''1536x640'', ustr ''640x1536'', ustr ''768x1344'', ustr ''832x1216'',
      ustr ''896x1152'']"

text \<open>The conversation states, \<^verbatim>\<open>range(8)\<close> in the source.\<close>

datatype state =
    ASK_NAME | ASK_PHONE | VERIFY_OTP | DIMENSION_CHOICE
  | AWAIT_PROMPT | AFTER_IMAGE | EDIT_PROMPT | REGEN_PROMPT

text \<open>
  What a handler hands back to the conversation: the next state,
  \<^verbatim>\<open>ConversationHandler.END\<close>, or an exception that leaves the handler.
\<close>

datatype outcome = Next state | End | Raised py_error

text \<open>
  Which states are served by a text message handler (\<^verbatim>\<open>MessageHandler(filters.TEXT ...)\<close>
  in \<^verbatim>\<open>main\<close>); the other two, \<open>DIMENSION_CHOICE\<close> and \<open>AFTER_IMAGE\<close>, are
  served by a \<^verbatim>\<open>CallbackQueryHandler\<close> and wait for a button.
\<close>

fun text_input_state :: "state \<Rightarrow> bool" where
  "text_input_state ASK_NAME = True"
| "text_input_state ASK_PHONE = True"
| "text_input_state VERIFY_OTP = True"
| "text_input_state DIMENSION_CHOICE = False"
| "text_input_state AWAIT_PROMPT = True"
| "text_input_state AFTER_IMAGE = False"
| "text_input_state EDIT_PROMPT = True"
| "text_input_state REGEN_PROMPT = True"

section \<open>The session\<close>

text \<open>
  \<^verbatim>\<open>context.user_data\<close> is a dictionary that only ever holds these eight keys, each
  with one type of value. A key that is not in the dictionary is \<open>None\<close> here, so
  \<^verbatim>\<open>user_data.get(k)\<close> is the field, \<^verbatim>\<open>user_data.pop(k, None)\<close> sets it to \<open>None\<close>, and
  the dictionary after \<^verbatim>\<open>user_data.clear()\<close> is \<open>empty_session\<close>.
\<close>

record session =
  name :: "pystr option"
  phone :: "pystr option"
  otp :: "pystr option"
  verified :: "bool option"
  dimension :: "pystr option"
  last_prompt :: "pystr option"
  last_image :: "bytes option"
  gallery :: "bytes list option"

definition empty_session :: session where
  "empty_session =
     \<lparr>name = None, phone = None, otp = None, verified = None, dimension = None,
      last_prompt = None, last_image = None, gallery = None\<rparr>"

section \<open>What a handler does to the outside\<close>

text \<open>
  The calls a handler makes, in order. The terminal log (\<^verbatim>\<open>print_user\<close>) and the
  \<^verbatim>\<open>parse_mode\<close> of a message are left out: they touch neither the session nor the
  returned state. The calls to the chat transport are taken to deliver.
\<close>

datatype button = InlineKeyboardButton pystr pystr

datatype effect =
    Reply pystr
  | ReplyKeyboard pystr "button list list"
  | AnswerCallback
  | ChatActionUploadPhoto int
  | Generate pystr int int
  | SendPhoto int bytes pystr
  | SendDocument int bytes pystr

type_synonym result = "session \<times> outcome \<times> effect list"

section \<open>The handlers of the registration steps\<close>

definition cmd_start :: "session \<Rightarrow> result" where
  "cmd_start s =
     (empty_session, Next ASK_NAME,
      [Reply (0x1F44B # ustr '' Welcome! What's your *name*?'')])"

definition ask_phone :: "pystr \<Rightarrow> session \<Rightarrow> result" where
  "ask_phone text s =
     (let name = strip text
      in (s\<lparr>name := Some name\<rparr>, Next ASK_PHONE,
          [Reply (0x1F4F1 # ustr '' Please enter your mobile number:'')]))"

text \<open>\<^verbatim>\<open>generate_otp\<close>; \<open>r\<close> is the draw of \<^verbatim>\<open>random.randint(1000, 9999)\<close>.\<close>

definition generate_otp :: "int \<Rightarrow> pystr" where
  "generate_otp r = str_int r"

definition send_otp :: "int \<Rightarrow> pystr \<Rightarrow> session \<Rightarrow> result" where
  "send_otp r text s =
     (let phone = strip text;
          s1 = s\<lparr>phone := Some phone\<rparr>;
          otp = generate_otp r;
          s2 = s1\<lparr>otp := Some otp\<rparr>
      in (s2, Next VERIFY_OTP,
          [Reply (0x1F510 # ustr '' Your OTP is: *'' @ otp @ ustr ''*'' @ [10, 10]
                  @ ustr ''Please type it here to verify.'')]))"

text \<open>
  The keyboard built in \<^verbatim>\<open>verify_otp_handler\<close>: one button per allowed size, the
  payload \<^verbatim>\<open>dim:<size>\<close>, a row closed after every third button and the rest, when there
  is one, as the last row. \<open>i\<close> counts from 1 as \<^verbatim>\<open>enumerate(ALLOWED_DIMS, 1)\<close> does.
\<close>

fun dim_rows :: "nat \<Rightarrow> button list \<Rightarrow> pystr list \<Rightarrow> button list list" where
  "dim_rows i row [] = (if row \<noteq> [] then [row] else [])"
| "dim_rows i row (d # ds) =
     (let row1 = row @ [InlineKeyboardButton d (ustr ''dim:'' @ d)]
      in if i mod 3 = 0 then row1 # dim_rows (i + 1) [] ds
         else dim_rows (i + 1) row1 ds)"

definition verify_otp_handler :: "pystr \<Rightarrow> session \<Rightarrow> result" where
  "verify_otp_handler text s =
     (let entered = strip text;
          expected = otp s
      in if (case expected of None \<Rightarrow> False | Some e \<Rightarrow> e \<noteq> [] \<and> entered = e)
         then (s\<lparr>verified := Some True\<rparr>, Next DIMENSION_CHOICE,
               [ReplyKeyboard (0x2705 # ustr '' Verified! Choose image dimensions:'')
                  (dim_rows 1 [] ALLOWED_DIMS)])
         else (s, Next VERIFY_OTP,
               [Reply (0x274C # ustr '' Wrong OTP. Please try again.'')]))"

definition dimension_chosen :: "pystr \<Rightarrow> session \<Rightarrow> result" where
  "dimension_chosen data s =
     (if \<not> startswith data (ustr ''dim:'')
      then (s, Next DIMENSION_CHOICE, [AnswerCallback, Reply (ustr ''Invalid selection.'')])
      else (case index1 (split_once 58 data) of
              Inl e \<Rightarrow> (s, Raised e, [AnswerCallback])
            | Inr dim \<Rightarrow>
                (s\<lparr>dimension := Some dim\<rparr>, Next AWAIT_PROMPT,
                 [AnswerCallback,
                  Reply (ustr ''Dimension set to *'' @ dim @ ustr ''*.'' @ [10, 10]
                         @ ustr ''Now send me the text prompt (describe the image):'')])))"

section \<open>The world outside the process\<close>

text \<open>
  What the handlers get from outside: Python's built-in \<^verbatim>\<open>int\<close> on a string
  (\<open>None\<close> when it raises ValueError), the outcome of \<^verbatim>\<open>requests.post\<close> for a prompt
  and a size, \<^verbatim>\<open>base64.b64decode\<close> on a string (\<open>None\<close> when it raises), the Pillow
  pipeline of \<^verbatim>\<open>compress_jpeg\<close> (\<open>None\<close> when it raises), and whether
  \<^verbatim>\<open>send_photo\<close> and \<^verbatim>\<open>send_document\<close> deliver (\<open>False\<close> when they raise). Every
  theorem below holds for every world.
\<close>

datatype http_outcome =
    PostRaised
  | Response int "json option"

text \<open>
  \<open>Response status body\<close>: the request returned, \<open>status\<close> is \<^verbatim>\<open>r.status_code\<close> and
  \<open>body\<close> is \<^verbatim>\<open>r.json()\<close>, \<open>None\<close> when parsing the body raises.
\<close>

record world =
  py_int :: "pystr \<Rightarrow> int option"
  http_post :: "pystr \<Rightarrow> int \<Rightarrow> int \<Rightarrow> http_outcome"
  b64decode :: "pystr \<Rightarrow> bytes option"
  pil_jpeg :: "bytes \<Rightarrow> bytes option"
  send_photo :: "int \<Rightarrow> bytes \<Rightarrow> pystr \<Rightarrow> bool"
  send_document :: "int \<Rightarrow> bytes \<Rightarrow> pystr \<Rightarrow> bool"

section \<open>The Generation Client\<close>

text \<open>
  Python's operators on a parsed JSON value, as far as \<^verbatim>\<open>generate_image_sync\<close> uses
  them. \<open>None\<close> is an exception (TypeError, KeyError or IndexError); all of them are
  caught by the same \<^verbatim>\<open>except Exception\<close>.
\<close>

text \<open>\<^verbatim>\<open>p in s\<close> on two strings: \<open>p\<close> occurs in \<open>s\<close>.\<close>

fun substring :: "pystr \<Rightarrow> pystr \<Rightarrow> bool" where
  "substring p [] = (p = [])"
| "substring p (x # xs) = (startswith (x # xs) p \<or> substring p xs)"

text \<open>\<^verbatim>\<open>k in v\<close> for a string \<open>k\<close>.\<close>

fun py_in :: "pystr \<Rightarrow> json \<Rightarrow> bool option" where
  "py_in k (JDict kvs) = Some (k \<in> fst ` set kvs)"
| "py_in k (JList xs) = Some (JStr k \<in> set xs)"
| "py_in k (JStr t) = Some (substring k t)"
| "py_in k _ = None"

text \<open>\<^verbatim>\<open>v[k]\<close> for a string \<open>k\<close>: only a dict can be read with a string.\<close>

fun py_getitem :: "json \<Rightarrow> pystr \<Rightarrow> json option" where
  "py_getitem (JDict kvs) k = map_of kvs k"
| "py_getitem _ k = None"

text \<open>\<^verbatim>\<open>len(v)\<close>.\<close>

fun py_len :: "json \<Rightarrow> nat option" where
  "py_len (JDict kvs) = Some (length kvs)"
| "py_len (JList xs) = Some (length xs)"
| "py_len (JStr t) = Some (length t)"
| "py_len _ = None"

text \<open>
  \<^verbatim>\<open>v[0]\<close>: the first element of a list, the first character of a string; a dict parsed
  from JSON has string keys only, so it has no key \<open>0\<close>.
\<close>

fun py_getitem0 :: "json \<Rightarrow> json option" where
  "py_getitem0 (JList (x # xs)) = Some x"
| "py_getitem0 (JStr (c # cs)) = Some (JStr [c])"
| "py_getitem0 _ = None"

text \<open>\<^verbatim>\<open>base64.b64decode(v)\<close>: a value that is not a string raises TypeError.\<close>

fun b64decode_value :: "world \<Rightarrow> json \<Rightarrow> bytes option" where
  "b64decode_value w (JStr t) = b64decode w t"
| "b64decode_value w _ = None"

definition generate_image_sync :: "world \<Rightarrow> pystr \<Rightarrow> int \<Rightarrow> int \<Rightarrow> bool \<times> bytes option" where
  "generate_image_sync w prompt width height =
     (case http_post w prompt width height of
        PostRaised \<Rightarrow> (False, None)
      | Response status_code body \<Rightarrow>
          if status_code \<noteq> 200 then (False, None)
          else
            (case body of
               None \<Rightarrow> (False, None)
             | Some j \<Rightarrow>
            (case py_in (ustr ''artifacts'') j of
               None \<Rightarrow> (False, None)
             | Some False \<Rightarrow> (False, None)
             | Some True \<Rightarrow>
            (case py_getitem j (ustr ''artifacts'') of
               None \<Rightarrow> (False, None)
             | Some artifacts \<Rightarrow>
            (case py_len artifacts of
               None \<Rightarrow> (False, None)
             | Some n \<Rightarrow>
            if \<not> n > 0 then (False, None)
            else
            (case py_getitem0 artifacts of
               None \<Rightarrow> (False, None)
             | Some first \<Rightarrow>
            (case py_in (ustr ''base64'') first of
               None \<Rightarrow> (False, None)
             | Some False \<Rightarrow> (False, None)
             | Some True \<Rightarrow>
            (case py_getitem first (ustr ''base64'') of
               None \<Rightarrow> (False, None)
             | Some b64 \<Rightarrow>
            (case b64decode_value w b64 of
               None \<Rightarrow> (False, None)
             | Some image_bytes \<Rightarrow> (True, Some image_bytes))))))))))"

text \<open>
  \<^verbatim>\<open>generate_image_async\<close> runs \<^verbatim>\<open>generate_image_sync\<close> in an executor and awaits its
  result.
\<close>

definition generate_image_async :: "world \<Rightarrow> pystr \<Rightarrow> int \<Rightarrow> int \<Rightarrow> bool \<times> bytes option" where
  "generate_image_async w prompt width height = generate_image_sync w prompt width height"

section \<open>Sending an image\<close>

definition compress_jpeg :: "world \<Rightarrow> bytes \<Rightarrow> bytes" where
  "compress_jpeg w image_bytes =
     (case pil_jpeg w image_bytes of Some b \<Rightarrow> b | None \<Rightarrow> image_bytes)"

definition safe_send_image_by_bot ::
    "world \<Rightarrow> int \<Rightarrow> bytes \<Rightarrow> pystr \<Rightarrow> bool \<times> effect list" where
  "safe_send_image_by_bot w chat_id image_bytes caption =
     (let send_bytes = compress_jpeg w image_bytes
      in if send_photo w chat_id send_bytes caption
         then (True, [SendPhoto chat_id send_bytes caption])
         else if send_document w chat_id image_bytes caption
         then (True, [SendPhoto chat_id send_bytes caption,
                      SendDocument chat_id image_bytes caption])
         else (False, [SendPhoto chat_id send_bytes caption,
                       SendDocument chat_id image_bytes caption]))"

section \<open>The handlers that generate\<close>

text \<open>
  \<^verbatim>\<open>width, height = map(int, dim.split("x"))\<close>: exactly two parts, both read by
  \<^verbatim>\<open>int\<close>; anything else raises ValueError.
\<close>

definition parse_dim :: "world \<Rightarrow> pystr \<Rightarrow> py_error + int \<times> int" where
  "parse_dim w dim =
     (case map (py_int w) (split_all 120 dim) of
        [Some width, Some height] \<Rightarrow> Inr (width, height)
      | _ \<Rightarrow> Inl ValueError)"

text \<open>The four buttons shown under every image.\<close>

definition action_buttons :: "button list list" where
  "action_buttons =
     [[InlineKeyboardButton (ustr ''edit'') (ustr ''act:edit''),
       InlineKeyboardButton (ustr ''save gallery'') (ustr ''act:save'')],
      [InlineKeyboardButton (ustr ''no gallery'') (ustr ''act:nosave''),
       InlineKeyboardButton (ustr ''Generate Again'') (ustr ''act:regen'')]]"

text \<open>
  In the three handlers below \<open>failure\<close> is the branch taken when
  \<^verbatim>\<open>not success or image_bytes is None\<close> holds: the bytes are absent, or they are there
  and \<open>success\<close> is false.
\<close>

definition receive_prompt_and_generate :: "world \<Rightarrow> int \<Rightarrow> pystr \<Rightarrow> session \<Rightarrow> result" where
  "receive_prompt_and_generate w uid text s =
     (let prompt = strip text;
          s1 = s\<lparr>last_prompt := Some prompt\<rparr>;
          abort = (s1, End,
                   [Reply ([0x26A0, 0xFE0F]
                      @ ustr '' Dimension not set. Please /start and choose a dimension.'')])
      in case dimension s1 of
           None \<Rightarrow> abort
         | Some dim \<Rightarrow>
             if dim = [] then abort
             else
               (case parse_dim w dim of
                  Inl e \<Rightarrow> (s1, Raised e, [])
                | Inr (width, height) \<Rightarrow>
                    (let before =
                           [ChatActionUploadPhoto uid,
                            Reply (0x1F3A8 # ustr '' Generating your image... this may take ''
                                   @ ustr ''a few seconds. Please wait '' @ [0x23F3]),
                            Generate prompt width height];
                         (success, image_bytes) = generate_image_async w prompt width height;
                         failure =
                           (s1, Next AWAIT_PROMPT,
                            before @ [Reply (0x274C # ustr '' Failed to generate image. ''
                                             @ ustr ''Try again later or try a different prompt.'')])
                     in case image_bytes of
                          None \<Rightarrow> failure
                        | Some img \<Rightarrow>
                            if \<not> success then failure
                            else
                              (let s2 = s1\<lparr>last_image := Some img\<rparr>;
                                   caption = 0x2728 # ustr '' Here'' @ [0x2019]
                                             @ ustr ''s your image for:'' @ [10]
                                             @ ustr ''`'' @ prompt @ ustr ''`'';
                                   (sent_ok, sending) = safe_send_image_by_bot w uid img caption
                               in if \<not> sent_ok
                                  then (s2, Next AWAIT_PROMPT,
                                        before @ sending
                                        @ [Reply (0x274C # ustr '' Generated image but failed ''
                                                  @ ustr ''to send. Try again.'')])
                                  else (s2, Next AFTER_IMAGE,
                                        before @ sending
                                        @ [ReplyKeyboard (ustr ''Choose next action:'')
                                             action_buttons])))))"

text \<open>\<^verbatim>\<open>gallery[-20:]\<close>: the last twenty entries, all of them when there are fewer.\<close>

definition last_20 :: "'a list \<Rightarrow> 'a list" where
  "last_20 xs = drop (length xs - 20) xs"

definition after_image_action :: "pystr \<Rightarrow> session \<Rightarrow> result" where
  "after_image_action data s =
     (case index1 (split_once 58 data) of
        Inl e \<Rightarrow> (s, Raised e, [AnswerCallback])
      | Inr action \<Rightarrow>
          if action = ustr ''edit''
          then (s, Next EDIT_PROMPT,
                [AnswerCallback,
                 Reply ([0x270F, 0xFE0F] @ ustr '' What would you like to edit in the image? ''
                        @ ustr ''Describe the changes:'')])
          else if action = ustr ''save''
          then (case last_image s of
                  None \<Rightarrow>
                    (s, Next AFTER_IMAGE,
                     [AnswerCallback, Reply (ustr ''No image available to save.'')])
                | Some img \<Rightarrow>
                    (let gallery0 = (case gallery s of None \<Rightarrow> [] | Some g \<Rightarrow> g);
                         gallery1 = gallery0 @ [img]
                     in (s\<lparr>gallery := Some (last_20 gallery1)\<rparr>, Next AFTER_IMAGE,
                         [AnswerCallback, Reply (0x2705 # ustr '' Saved to gallery.'')])))
          else if action = ustr ''nosave''
          then (s\<lparr>last_image := None\<rparr>, Next AFTER_IMAGE,
                [AnswerCallback,
                 Reply (ustr ''Okay '' @ [0x2014] @ ustr '' image not saved to gallery.'')])
          else if action = ustr ''regen''
          then (s, Next REGEN_PROMPT,
                [AnswerCallback,
                 Reply (0x1F501 # ustr '' What type of image do you want now? ''
                        @ ustr ''Send a new prompt:'')])
          else (s, Next AFTER_IMAGE, [AnswerCallback, Reply (ustr ''Unknown action.'')]))"

definition edit_prompt_handler :: "world \<Rightarrow> int \<Rightarrow> pystr \<Rightarrow> session \<Rightarrow> result" where
  "edit_prompt_handler w uid text s =
     (let edit_instructions = strip text;
          orig_prompt = (case last_prompt s of None \<Rightarrow> [] | Some p \<Rightarrow> p)
      in if orig_prompt = []
         then (s, Next AWAIT_PROMPT,
               [Reply (ustr ''Original prompt missing. Please generate an image first.'')])
         else
           (let combined_prompt = orig_prompt @ ustr ''. Edit: '' @ edit_instructions;
                s1 = s\<lparr>last_prompt := Some combined_prompt\<rparr>;
                abort = (s1, End,
                         [Reply (ustr ''Dimension missing. Please /start and choose dimension.'')])
            in case dimension s1 of
                 None \<Rightarrow> abort
               | Some dim \<Rightarrow>
                   if dim = [] then abort
                   else
                     (case parse_dim w dim of
                        Inl e \<Rightarrow> (s1, Raised e, [])
                      | Inr (width, height) \<Rightarrow>
                          (let before =
                                 [ChatActionUploadPhoto uid,
                                  Reply (0x1F3A8 # ustr '' Applying edits... please wait ''
                                         @ [0x23F3]),
                                  Generate combined_prompt width height];
                               (success, image_bytes) =
                                 generate_image_async w combined_prompt width height;
                               failure =
                                 (s1, Next AFTER_IMAGE,
                                  before @ [Reply (0x274C
                                              # ustr '' Failed to edit the image. Try again.'')])
                           in case image_bytes of
                                None \<Rightarrow> failure
                              | Some img \<Rightarrow>
                                  if \<not> success then failure
                                  else
                                    (let s2 = s1\<lparr>last_image := Some img\<rparr>;
                                         caption = 0x2728 # ustr '' Here'' @ [0x2019]
                                                   @ ustr ''s the *edited* image for:'' @ [10]
                                                   @ ustr ''`'' @ combined_prompt @ ustr ''`'';
                                         (sent, sending) =
                                           safe_send_image_by_bot w uid img caption
                                     in if \<not> sent
                                        then (s2, Next AFTER_IMAGE,
                                              before @ sending
                                              @ [Reply (0x274C # ustr '' Edited image generated ''
                                                        @ ustr ''but failed to send.'')])
                                        else (s2, Next AFTER_IMAGE,
                                              before @ sending
                                              @ [ReplyKeyboard (ustr ''Choose next action:'')
                                                   action_buttons]))))))"

definition regen_prompt_handler :: "world \<Rightarrow> int \<Rightarrow> pystr \<Rightarrow> session \<Rightarrow> result" where
  "regen_prompt_handler w uid text s =
     (let prompt = strip text;
          abort = (s, End, [Reply (ustr ''Dimension missing. Start with /start.'')])
      in case dimension s of
           None \<Rightarrow> abort
         | Some dim \<Rightarrow>
             if dim = [] then abort
             else
               (case parse_dim w dim of
                  Inl e \<Rightarrow> (s, Raised e, [])
                | Inr (width, height) \<Rightarrow>
                    (let s1 = s\<lparr>last_prompt := Some prompt\<rparr>;
                         before =
                           [ChatActionUploadPhoto uid,
                            Reply (0x1F3A8 # ustr '' Generating new image... please wait ''
                                   @ [0x23F3]),
                            Generate prompt width height];
                         (success, image_bytes) = generate_image_async w prompt width height;
                         failure =
                           (s1, Next AWAIT_PROMPT,
                            before @ [Reply (0x274C # ustr '' Failed to generate. Try again.'')])
                     in case image_bytes of
                          None \<Rightarrow> failure
                        | Some img \<Rightarrow>
                            if \<not> success then failure
                            else
                              (let s2 = s1\<lparr>last_image := Some img\<rparr>;
                                   caption = 0x2728 # ustr '' Here'' @ [0x2019]
                                             @ ustr ''s your new image for:'' @ [10]
                                             @ ustr ''`'' @ prompt @ ustr ''`'';
                                   (sent, sending) = safe_send_image_by_bot w uid img caption
                               in if \<not> sent
                                  then (s2, Next AWAIT_PROMPT,
                                        before @ sending
                                        @ [Reply (0x274C
                                                  # ustr '' Generated but failed to send.'')])
                                  else (s2, Next AFTER_IMAGE,
                                        before @ sending
                                        @ [ReplyKeyboard (ustr ''Choose next action:'')
                                             action_buttons])))))"

text \<open>\<^verbatim>\<open>cmd_cancel\<close>, the fallback of the conversation.\<close>

definition cmd_cancel :: "session \<Rightarrow> result" where
  "cmd_cancel s = (s, End, [Reply (ustr ''Cancelled. You can begin again with /start.'')])"

section \<open>Any handler, any number of times\<close>

text \<open>
  One invocation of a handler with its inputs. The table of \<^verbatim>\<open>main\<close> decides which
  handler answers in which state; \<open>run\<close> is more liberal and lets any handler follow any
  other, so what holds after every \<open>run\<close> holds after every conversation.
  \<^verbatim>\<open>cmd_gallery\<close> is not listed: it reads the gallery and writes nothing.
\<close>

datatype call =
    CmdStart
  | AskPhone pystr
  | SendOtp int pystr
  | VerifyOtp pystr
  | DimensionChosen pystr
  | ReceivePrompt world int pystr
  | AfterImage pystr
  | EditPrompt world int pystr
  | RegenPrompt world int pystr
  | CmdCancel

fun invoke :: "call \<Rightarrow> session \<Rightarrow> result" where
  "invoke CmdStart s = cmd_start s"
| "invoke (AskPhone text) s = ask_phone text s"
| "invoke (SendOtp r text) s = send_otp r text s"
| "invoke (VerifyOtp text) s = verify_otp_handler text s"
| "invoke (DimensionChosen data) s = dimension_chosen data s"
| "invoke (ReceivePrompt w uid text) s = receive_prompt_and_generate w uid text s"
| "invoke (AfterImage data) s = after_image_action data s"
| "invoke (EditPrompt w uid text) s = edit_prompt_handler w uid text s"
| "invoke (RegenPrompt w uid text) s = regen_prompt_handler w uid text s"
| "invoke CmdCancel s = cmd_cancel s"

fun run :: "call list \<Rightarrow> session \<Rightarrow> session" where
  "run [] s = s"
| "run (c # cs) s = run cs (fst (invoke c s))"

text \<open>\<^verbatim>\<open>len(user_data.get('gallery', []))\<close>.\<close>

definition gallery_size :: "session \<Rightarrow> nat" where
  "gallery_size s = (case gallery s of None \<Rightarrow> 0 | Some g \<Rightarrow> length g)"

text \<open>\<^verbatim>\<open>user_data.get('gallery', [])\<close>.\<close>

definition gallery_list :: "session \<Rightarrow> bytes list" where
  "gallery_list s = (case gallery s of None \<Rightarrow> [] | Some g \<Rightarrow> g)"

section \<open>Reading a handler's result\<close>

text \<open>The test of the three call sites: \<^verbatim>\<open>not success or image_bytes is None\<close>.\<close>

definition generation_failed :: "bool \<times> bytes option \<Rightarrow> bool" where
  "generation_failed r \<longleftrightarrow> \<not> fst r \<or> snd r = None"

text \<open>Whether a handler called \<^verbatim>\<open>generate_image_async\<close>.\<close>

fun is_generate :: "effect \<Rightarrow> bool" where
  "is_generate (Generate prompt width height) = True"
| "is_generate _ = False"

definition calls_generation :: "result \<Rightarrow> bool" where
  "calls_generation r = list_ex is_generate (snd (snd r))"

text \<open>
  The condition under which the Generation Client is said to succeed: the request did not
  raise, the status is 200, and the parsed body holds a non-empty \<^verbatim>\<open>artifacts\<close> list
  whose first element has a \<^verbatim>\<open>base64\<close> field.
\<close>

definition has_base64_field :: "http_outcome \<Rightarrow> bool" where
  "has_base64_field r =
     (case r of
        PostRaised \<Rightarrow> False
      | Response status_code body \<Rightarrow>
          status_code = 200 \<and>
          (case body of
             Some (JDict kvs) \<Rightarrow>
               (case map_of kvs (ustr ''artifacts'') of
                  Some (JList (JDict item # rest)) \<Rightarrow> ustr ''base64'' \<in> fst ` set item
                | _ \<Rightarrow> False)
           | _ \<Rightarrow> False))"

text \<open>
  The same condition with what the field must hold: a string that
  \<^verbatim>\<open>base64.b64decode\<close> accepts; the result is the decoded image.
\<close>

definition decoded_image :: "world \<Rightarrow> http_outcome \<Rightarrow> bytes option" where
  "decoded_image w r =
     (case r of
        PostRaised \<Rightarrow> None
      | Response status_code body \<Rightarrow>
          if status_code \<noteq> 200 then None
          else
            (case body of
               Some (JDict kvs) \<Rightarrow>
                 (case map_of kvs (ustr ''artifacts'') of
                    Some (JList (JDict item # rest)) \<Rightarrow>
                      (case map_of item (ustr ''base64'') of
                         Some (JStr t) \<Rightarrow> b64decode w t
                       | _ \<Rightarrow> None)
                  | _ \<Rightarrow> None)
             | _ \<Rightarrow> None))"

section \<open>Sample sessions and worlds\<close>

text \<open>
  Concrete inputs for the closed theorems below. In \<open>offline_world\<close> every request
  raises; in \<open>serving_world\<close> the provider answers with one artifact whose
  \<^verbatim>\<open>base64\<close> field is \<^verbatim>\<open>AQID\<close>, the encoding of the bytes 1, 2, 3; in
  \<open>null_field_world\<close> the field is there and holds \<^verbatim>\<open>null\<close>. The tables for
  \<^verbatim>\<open>int\<close> and \<^verbatim>\<open>b64decode\<close> list the strings that occur.
\<close>

definition offline_world :: world where
  "offline_world =
     \<lparr>py_int = (\<lambda>t. if t = ustr ''1024'' then Some 1024 else None),
      http_post = (\<lambda>prompt width height. PostRaised),
      b64decode = (\<lambda>t. if t = ustr ''AQID'' then Some [1, 2, 3] else None),
      pil_jpeg = (\<lambda>b. None),
      send_photo = (\<lambda>chat_id b caption. True),
      send_document = (\<lambda>chat_id b caption. True)\<rparr>"

definition serving_world :: world where
  "serving_world =
     offline_world\<lparr>http_post := (\<lambda>prompt width height.
        Response 200 (Some (JDict [(ustr ''artifacts'',
          JList [JDict [(ustr ''base64'', JStr (ustr ''AQID''))]])])))\<rparr>"

definition null_field_world :: world where
  "null_field_world =
     offline_world\<lparr>http_post := (\<lambda>prompt width height.
        Response 200 (Some (JDict [(ustr ''artifacts'',
          JList [JDict [(ustr ''base64'', JNull)]])])))\<rparr>"

definition fox_session :: session where
  "fox_session =
     empty_session\<lparr>dimension := Some (ustr ''1024x1024''),
                    last_prompt := Some (ustr ''a red fox''),
                    last_image := Some [7, 7]\<rparr>"

definition otp_session :: session where
  "otp_session =
     empty_session\<lparr>name := Some (ustr ''Ava''), phone := Some (ustr ''555-0100''),
                    otp := Some (ustr ''4821'')\<rparr>"

definition full_gallery :: "bytes list" where
  "full_gallery =
     [[0], [1], [2], [3], [4], [5], [6], [7], [8], [9],
      [10], [11], [12], [13], [14], [15], [16], [17], [18], [19]]"

definition full_session :: session where
  "full_session = empty_session\<lparr>last_image := Some [99], gallery := Some full_gallery\<rparr>"

text \<open>
  \<open>prompt_session\<close> is the session after a size was chosen and one prompt was
  answered by \<open>serving_world\<close>; \<open>copies_session\<close> is that session after the save
  button was pressed twenty times.
\<close>

definition prompt_session :: session where
  "prompt_session =
     empty_session\<lparr>dimension := Some (ustr ''1024x1024''),
                    last_prompt := Some (ustr ''a red fox''),
                    last_image := Some [1, 2, 3]\<rparr>"

definition copies_session :: session where
  "copies_session = prompt_session\<lparr>gallery := Some (replicate 20 [1, 2, 3])\<rparr>"

section \<open>Properties\<close>

subsection \<open>Strings and payloads\<close>

lemma ustr_simps:
  "ustr [] = []"
  "ustr (c # cs) = of_char c # ustr cs"
  by (simp_all add: ustr_def)

lemma act_payload: "index1 (split_once 58 (ustr ''act:'' @ a)) = Inr a"
  by (simp add: split_once_def index1_def ustr_simps)

lemma dim_payload: "index1 (split_once 58 (ustr ''dim:'' @ t)) = Inr t"
  by (simp add: split_once_def index1_def ustr_simps)

lemma dim_prefix: "startswith (ustr ''dim:'' @ t) (ustr ''dim:'')"
  by (simp add: startswith_def)

lemma strip_no_space:
  assumes "\<forall>c\<in>set xs. \<not> isspace c"
  shows "strip xs = xs"
proof -
  have d: "dropWhile isspace ys = ys" if "\<forall>c\<in>set ys. \<not> isspace c" for ys
    using that by (cases ys) simp_all
  have "dropWhile isspace xs = xs"
    using assms by (rule d)
  moreover have "dropWhile isspace (rev xs) = rev xs"
    using assms by (intro d) simp
  ultimately show ?thesis
    by (simp add: strip_def)
qed

lemma str_nat_digits: "\<forall>c\<in>set (str_nat n). 48 \<le> c \<and> c \<le> 57"
proof (induction n rule: str_nat.induct)
  case (1 n)
  show ?case
  proof (cases "n < 10")
    case True
    then show ?thesis
      by (subst str_nat.simps) simp
  next
    case False
    have "n mod 10 < 10"
      by simp
    then have "48 + n mod 10 \<le> 57"
      by linarith
    with False 1 show ?thesis
      by (subst str_nat.simps) simp
  qed
qed

lemma str_nat_nonempty: "str_nat n \<noteq> []"
  by (subst str_nat.simps) simp

lemma digit_not_space: "48 \<le> c \<Longrightarrow> c \<le> 57 \<Longrightarrow> \<not> isspace c"
  by (simp add: isspace_def)

lemma strip_generate_otp:
  assumes "0 \<le> r"
  shows "strip (generate_otp r) = generate_otp r"
proof -
  have "\<forall>c\<in>set (str_nat (nat r)). \<not> isspace c"
    using str_nat_digits digit_not_space by blast
  then have "strip (str_nat (nat r)) = str_nat (nat r)"
    by (rule strip_no_space)
  with assms show ?thesis
    by (simp add: generate_otp_def str_int_def)
qed

lemma generate_otp_nonempty: "generate_otp r \<noteq> []"
  by (simp add: generate_otp_def str_int_def str_nat_nonempty)

lemma generate_otp_4821: "generate_otp 4821 = ustr ''4821''"
  by (simp add: generate_otp_def str_int_def str_nat.simps ustr_simps)

lemma offered_buttons:
  "concat (dim_rows 1 [] ALLOWED_DIMS) =
     map (\<lambda>d. InlineKeyboardButton d (ustr ''dim:'' @ d)) ALLOWED_DIMS"
  by (simp add: ALLOWED_DIMS_def Let_def)

subsection \<open>The start command\<close>

text \<open>
  C6. Whatever the session held before, the start command leaves no key in it
  (no name, phone, otp, verified flag, dimension, last prompt, last image or gallery)
  and enters \<open>ASK_NAME\<close>.
\<close>

theorem C6_start_resets_session:
  "fst (cmd_start s) = empty_session
   \<and> name (fst (cmd_start s)) = None
   \<and> phone (fst (cmd_start s)) = None
   \<and> otp (fst (cmd_start s)) = None
   \<and> verified (fst (cmd_start s)) = None
   \<and> dimension (fst (cmd_start s)) = None
   \<and> last_prompt (fst (cmd_start s)) = None
   \<and> last_image (fst (cmd_start s)) = None
   \<and> gallery (fst (cmd_start s)) = None
   \<and> fst (snd (cmd_start s)) = Next ASK_NAME"
  by (simp add: cmd_start_def empty_session_def)

subsection \<open>The gallery\<close>

lemma last_20_snoc: "length g = 20 \<Longrightarrow> last_20 (g @ [x]) = tl g @ [x]"
  by (cases g) (simp_all add: last_20_def)

lemma length_last_20: "length (last_20 xs) \<le> 20"
  by (simp add: last_20_def)

lemma gallery_receive:
  "gallery (fst (receive_prompt_and_generate w uid text s)) = gallery s"
  by (simp add: receive_prompt_and_generate_def Let_def
           split: option.splits sum.splits prod.splits)

lemma gallery_edit:
  "gallery (fst (edit_prompt_handler w uid text s)) = gallery s"
  by (simp add: edit_prompt_handler_def Let_def
           split: option.splits sum.splits prod.splits)

lemma gallery_regen:
  "gallery (fst (regen_prompt_handler w uid text s)) = gallery s"
  by (simp add: regen_prompt_handler_def Let_def
           split: option.splits sum.splits prod.splits)

lemma gallery_after_image:
  "gallery_size s \<le> 20 \<Longrightarrow> gallery_size (fst (after_image_action data s)) \<le> 20"
  by (simp add: after_image_action_def gallery_size_def Let_def length_last_20
           split: option.splits sum.splits)

lemma gallery_invoke:
  assumes "gallery_size s \<le> 20"
  shows "gallery_size (fst (invoke c s)) \<le> 20"
proof (cases c)
  case (AfterImage data)
  with assms show ?thesis
    by (simp add: gallery_after_image)
next
  case (ReceivePrompt w uid m)
  with assms show ?thesis
    by (simp add: gallery_size_def gallery_receive)
next
  case (EditPrompt w uid m)
  with assms show ?thesis
    by (simp add: gallery_size_def gallery_edit)
next
  case (RegenPrompt w uid m)
  with assms show ?thesis
    by (simp add: gallery_size_def gallery_regen)
qed (use assms in \<open>simp_all add: gallery_size_def cmd_start_def empty_session_def ask_phone_def
       send_otp_def verify_otp_handler_def dimension_chosen_def cmd_cancel_def Let_def
       split: option.splits sum.splits\<close>)

lemma gallery_run: "gallery_size s \<le> 20 \<Longrightarrow> gallery_size (run cs s) \<le> 20"
  by (induction cs arbitrary: s) (simp_all add: gallery_invoke)

lemma save_full:
  assumes "gallery s = Some g" and "length g = 20" and "last_image s = Some img"
  shows "after_image_action (ustr ''act:save'') s =
          (s\<lparr>gallery := Some (tl g @ [img])\<rparr>, Next AFTER_IMAGE,
           [AnswerCallback, Reply (0x2705 # ustr '' Saved to gallery.'')])"
  using assms
  by (simp add: after_image_action_def split_once_def index1_def last_20_snoc ustr_simps)

lemma save_step:
  assumes "last_image s = Some img"
  shows "fst (after_image_action (ustr ''act:save'') s) =
           s\<lparr>gallery := Some (last_20 (gallery_list s @ [img]))\<rparr>"
  using assms
  by (simp add: after_image_action_def split_once_def index1_def gallery_list_def ustr_simps)

lemma no_image_save:
  assumes "last_image s = None"
  shows "after_image_action (ustr ''act:save'') s =
           (s, Next AFTER_IMAGE, [AnswerCallback, Reply (ustr ''No image available to save.'')])"
  using assms
  by (simp add: after_image_action_def split_once_def index1_def ustr_simps)

text \<open>
  The save action keeps the last image, so pressing the button again saves the same
  bytes again: \<open>n\<close> presses on a gallery of \<open>k\<close> copies give \<open>k + n\<close> copies.
\<close>

lemma saves_copies:
  "last_image s = Some img \<Longrightarrow> gallery_list s = replicate k img \<Longrightarrow> k + n \<le> 20 \<Longrightarrow> 0 < n \<Longrightarrow>
   run (replicate n (AfterImage (ustr ''act:save''))) s =
     s\<lparr>gallery := Some (replicate (k + n) img)\<rparr>"
proof (induction n arbitrary: s k)
  case 0
  then show ?case
    by simp
next
  case (Suc n)
  let ?s1 = "s\<lparr>gallery := Some (replicate (Suc k) img)\<rparr>"
  have "last_20 (replicate k img @ [img]) = replicate (Suc k) img"
    using Suc.prems(3) by (simp add: last_20_def replicate_append_same)
  then have step: "fst (after_image_action (ustr ''act:save'') s) = ?s1"
    using Suc.prems(1,2) by (simp add: save_step)
  show ?case
  proof (cases "n = 0")
    case True
    then show ?thesis
      using step by simp
  next
    case False
    have "run (replicate n (AfterImage (ustr ''act:save''))) ?s1 =
            ?s1\<lparr>gallery := Some (replicate (Suc k + n) img)\<rparr>"
      using Suc.prems False by (intro Suc.IH) (simp_all add: gallery_list_def)
    then show ?thesis
      using step by simp
  qed
qed

lemma dim_step:
  "fst (dimension_chosen (ustr ''dim:'' @ ustr ''1024x1024'') empty_session) =
     empty_session\<lparr>dimension := Some (ustr ''1024x1024'')\<rparr>"
  by (simp add: dimension_chosen_def dim_payload dim_prefix)

lemma receive_step:
  "fst (receive_prompt_and_generate serving_world 7 (ustr ''a red fox'')
          (empty_session\<lparr>dimension := Some (ustr ''1024x1024'')\<rparr>)) = prompt_session"
  by (simp add: receive_prompt_and_generate_def
        prompt_session_def empty_session_def strip_def isspace_def Let_def parse_dim_def
        serving_world_def offline_world_def generate_image_async_def generate_image_sync_def
        safe_send_image_by_bot_def compress_jpeg_def ustr_simps)

lemma run_append: "run (xs @ ys) s = run ys (run xs s)"
  by (induction xs arbitrary: s) simp_all

lemma first_prompt:
  "run [DimensionChosen (ustr ''dim:'' @ ustr ''1024x1024''),
        ReceivePrompt serving_world 7 (ustr ''a red fox'')] empty_session = prompt_session"
  by (simp add: dim_step receive_step)

lemma reachable_copies:
  "run ([DimensionChosen (ustr ''dim:'' @ ustr ''1024x1024''),
         ReceivePrompt serving_world 7 (ustr ''a red fox'')]
        @ replicate 20 (AfterImage (ustr ''act:save''))) empty_session = copies_session"
proof -
  have "run (replicate 20 (AfterImage (ustr ''act:save''))) prompt_session = copies_session"
    using saves_copies [of prompt_session "[1, 2, 3]" 0 20]
    by (simp add: prompt_session_def empty_session_def gallery_list_def copies_session_def)
  then show ?thesis
    by (simp only: run_append first_prompt)
qed

text \<open>
  C3, as claimed, fails. The handlers themselves lead from the empty session to
  \<open>copies_session\<close> (a size chosen, one prompt answered, save pressed twenty times):
  its gallery holds 20 entries and it has a current image, and after one more save the
  bytes of the previously oldest entry are still in the gallery, because every entry and
  the saved image are the same bytes. And in a session with 20 entries and no current
  image, save appends nothing and removes nothing: the oldest entry stays.
\<close>

theorem C3_counterexample:
  "run ([DimensionChosen (ustr ''dim:'' @ ustr ''1024x1024''),
         ReceivePrompt serving_world 7 (ustr ''a red fox'')]
        @ replicate 20 (AfterImage (ustr ''act:save''))) empty_session = copies_session
   \<and> gallery copies_session = Some (replicate 20 [1, 2, 3])
   \<and> length (replicate 20 [1, 2, 3 :: 8 word]) = 20
   \<and> last_image copies_session = Some [1, 2, 3]
   \<and> hd (replicate 20 [1, 2, 3 :: 8 word]) = [1, 2, 3]
   \<and> gallery (fst (after_image_action (ustr ''act:save'') copies_session))
       = Some (tl (replicate 20 [1, 2, 3]) @ [[1, 2, 3]])
   \<and> [1, 2, 3] \<in> set (tl (replicate 20 [1, 2, 3 :: 8 word]) @ [[1, 2, 3]])
   \<and> gallery (full_session\<lparr>last_image := None\<rparr>) = Some full_gallery
   \<and> length full_gallery = 20
   \<and> gallery (fst (after_image_action (ustr ''act:save'') (full_session\<lparr>last_image := None\<rparr>)))
       = Some full_gallery
   \<and> hd full_gallery \<in> set full_gallery"
  using reachable_copies
  by (simp add: save_step no_image_save last_20_snoc copies_session_def prompt_session_def
        empty_session_def gallery_list_def full_session_def full_gallery_def)

text \<open>
  C3, amended. The gallery never holds more than 20 entries, whatever handlers ran since
  the session was empty, and eviction is first in, first out by position. In a session
  whose gallery holds 20 entries and which has a current image, the save action appends
  that image and drops exactly the first entry: the new gallery is the old one without
  its head, in the same order, followed by the image; it has 20 entries and the image is
  the last of them. The current image stays the current image. The bytes of the old
  head are still in the new gallery exactly when another entry or the saved image has
  the same bytes. In a session whose gallery holds 20 entries and which has no current
  image, the save action changes nothing. In both cases the handler stays in
  \<open>AFTER_IMAGE\<close>.
\<close>

theorem C3_gallery_fifo_by_position:
  assumes "gallery s = Some g" and "length g = 20"
  shows "(last_image s = Some img \<longrightarrow>
            gallery (fst (after_image_action (ustr ''act:save'') s)) = Some (tl g @ [img])
            \<and> length (tl g @ [img]) = 20
            \<and> last (tl g @ [img]) = img
            \<and> last_image (fst (after_image_action (ustr ''act:save'') s)) = Some img
            \<and> (hd g \<in> set (tl g @ [img]) \<longleftrightarrow> hd g \<in> set (tl g) \<or> hd g = img)
            \<and> fst (snd (after_image_action (ustr ''act:save'') s)) = Next AFTER_IMAGE)
     \<and> (last_image s = None \<longrightarrow>
            after_image_action (ustr ''act:save'') s =
              (s, Next AFTER_IMAGE,
               [AnswerCallback, Reply (ustr ''No image available to save.'')]))
     \<and> gallery_size (run calls empty_session) \<le> 20"
proof -
  have "gallery_size empty_session \<le> 20"
    by (simp add: gallery_size_def empty_session_def)
  then have bound: "gallery_size (run calls empty_session) \<le> 20"
    by (rule gallery_run)
  have save: "after_image_action (ustr ''act:save'') s =
          (s\<lparr>gallery := Some (tl g @ [img])\<rparr>, Next AFTER_IMAGE,
           [AnswerCallback, Reply (0x2705 # ustr '' Saved to gallery.'')])"
    if "last_image s = Some img"
    using assms that by (rule save_full)
  show ?thesis
    using bound assms(2) save no_image_save [of s] by auto
qed

theorem C3_witness:
  "gallery full_session = Some full_gallery \<and> length full_gallery = 20
   \<and> last_image full_session = Some [99]
   \<and> hd full_gallery = [0] \<and> [0] \<notin> set (tl full_gallery)
   \<and> gallery (fst (after_image_action (ustr ''act:save'') full_session))
       = Some [[1], [2], [3], [4], [5], [6], [7], [8], [9], [10],
               [11], [12], [13], [14], [15], [16], [17], [18], [19], [99]]
   \<and> [0] \<notin> set (tl full_gallery @ [[99]])
   \<and> gallery (full_session\<lparr>last_image := None\<rparr>) = Some full_gallery
   \<and> last_image (full_session\<lparr>last_image := None\<rparr>) = None
   \<and> fst (after_image_action (ustr ''act:save'') (full_session\<lparr>last_image := None\<rparr>))
       = full_session\<lparr>last_image := None\<rparr>"
  using C3_gallery_fifo_by_position [of full_session full_gallery "[99]" "[]"]
    C3_gallery_fifo_by_position [of "full_session\<lparr>last_image := None\<rparr>" full_gallery
      "[99]" "[]"]
  by (simp add: full_session_def full_gallery_def empty_session_def)

text \<open>
  C9. The nosave action removes the last image and stays in \<open>AFTER_IMAGE\<close>; a save
  action right after it finds no image, answers that there is none, changes nothing in
  the session, so the gallery is what it was before the two actions, and stays in
  \<open>AFTER_IMAGE\<close>.
\<close>

theorem C9_nosave_then_save:
  "last_image (fst (after_image_action (ustr ''act:nosave'') s)) = None
   \<and> fst (snd (after_image_action (ustr ''act:nosave'') s)) = Next AFTER_IMAGE
   \<and> after_image_action (ustr ''act:save'') (fst (after_image_action (ustr ''act:nosave'') s)) =
       (fst (after_image_action (ustr ''act:nosave'') s), Next AFTER_IMAGE,
        [AnswerCallback, Reply (ustr ''No image available to save.'')])
   \<and> gallery (fst (after_image_action (ustr ''act:save'')
                  (fst (after_image_action (ustr ''act:nosave'') s)))) = gallery s"
  by (simp add: after_image_action_def split_once_def index1_def ustr_simps)

subsection \<open>Choosing a dimension\<close>

text \<open>
  C2, as claimed, fails: the payload \<^verbatim>\<open>dim:999x999\<close> is accepted, its token is stored
  as the dimension and the prompt is asked for, though \<^verbatim>\<open>999x999\<close> is not one of the
  nine allowed sizes.
\<close>

theorem C2_counterexample:
  "dimension (fst (dimension_chosen (ustr ''dim:999x999'') empty_session))
     = Some (ustr ''999x999'')
   \<and> fst (snd (dimension_chosen (ustr ''dim:999x999'') empty_session)) = Next AWAIT_PROMPT
   \<and> ustr ''999x999'' \<notin> set ALLOWED_DIMS"
  by (simp add: dimension_chosen_def startswith_def split_once_def index1_def ALLOWED_DIMS_def
        ustr_simps)

text \<open>
  C2, amended. In \<open>DIMENSION_CHOICE\<close> the token of a payload \<^verbatim>\<open>dim:<token>\<close> is stored
  as the dimension without any check, for every token, and the next state is
  \<open>AWAIT_PROMPT\<close>. A payload that does not start with \<^verbatim>\<open>dim:\<close> changes nothing and
  stays in \<open>DIMENSION_CHOICE\<close>. The allow-list decides which buttons are offered: one
  button with the payload \<^verbatim>\<open>dim:<size>\<close> for each of the nine sizes, in their order.
\<close>

theorem C2_dimension_stored_unchecked:
  "dimension_chosen (ustr ''dim:'' @ token) s =
     (s\<lparr>dimension := Some token\<rparr>, Next AWAIT_PROMPT,
      [AnswerCallback,
       Reply (ustr ''Dimension set to *'' @ token @ ustr ''*.'' @ [10, 10]
              @ ustr ''Now send me the text prompt (describe the image):'')])
   \<and> (\<not> startswith data (ustr ''dim:'') \<longrightarrow>
        dimension_chosen data s =
          (s, Next DIMENSION_CHOICE, [AnswerCallback, Reply (ustr ''Invalid selection.'')]))
   \<and> concat (dim_rows 1 [] ALLOWED_DIMS) =
       map (\<lambda>d. InlineKeyboardButton d (ustr ''dim:'' @ d)) ALLOWED_DIMS"
  using offered_buttons by (simp add: dimension_chosen_def dim_payload dim_prefix)

theorem C2_witness:
  "\<not> startswith (ustr ''act:save'') (ustr ''dim:'')
   \<and> dimension_chosen (ustr ''act:save'') empty_session =
       (empty_session, Next DIMENSION_CHOICE,
        [AnswerCallback, Reply (ustr ''Invalid selection.'')])
   \<and> dimension (fst (dimension_chosen (ustr ''dim:'' @ ustr ''1024x1024'') empty_session))
       = Some (ustr ''1024x1024'')
   \<and> dimension (fst (dimension_chosen (ustr ''dim:'' @ ustr ''banana'') empty_session))
       = Some (ustr ''banana'')"
  using C2_dimension_stored_unchecked [of "ustr ''1024x1024''" empty_session "ustr ''act:save''"]
    C2_dimension_stored_unchecked [of "ustr ''banana''" empty_session "ustr ''act:save''"]
  by (simp add: startswith_def ustr_simps)

subsection \<open>Verifying the OTP\<close>

text \<open>
  C5, as claimed, fails: with the generated OTP \<^verbatim>\<open>4821\<close> stored, the text
  \<^verbatim>\<open>" 4821"\<close> (a space in front) is another string than the OTP, and the handler
  still sets \<open>verified\<close> and moves to \<open>DIMENSION_CHOICE\<close>, because it compares the
  text after \<^verbatim>\<open>strip()\<close>.
\<close>

theorem C5_counterexample:
  "otp otp_session = Some (generate_otp 4821)
   \<and> ustr '' 4821'' \<noteq> generate_otp 4821
   \<and> verified (fst (verify_otp_handler (ustr '' 4821'') otp_session)) = Some True
   \<and> fst (snd (verify_otp_handler (ustr '' 4821'') otp_session)) = Next DIMENSION_CHOICE"
  by (simp add: otp_session_def empty_session_def generate_otp_4821 verify_otp_handler_def
        strip_def isspace_def ustr_simps)

lemma wrong_otp:
  assumes "otp s = Some e" and "strip t \<noteq> e"
  shows "verify_otp_handler t s =
           (s, Next VERIFY_OTP, [Reply (0x274C # ustr '' Wrong OTP. Please try again.'')])"
  using assms by (simp add: verify_otp_handler_def)

lemma right_otp:
  assumes "otp s = Some e" and "e \<noteq> []" and "strip t = e"
  shows "verify_otp_handler t s =
           (s\<lparr>verified := Some True\<rparr>, Next DIMENSION_CHOICE,
            [ReplyKeyboard (0x2705 # ustr '' Verified! Choose image dimensions:'')
               (dim_rows 1 [] ALLOWED_DIMS)])"
  using assms by (simp add: verify_otp_handler_def)

lemma wrong_otps_run:
  assumes "otp s = Some e"
  shows "list_all (\<lambda>t. strip t \<noteq> e) ts \<Longrightarrow> run (map VerifyOtp ts) s = s"
  by (induction ts) (simp_all add: wrong_otp [OF assms])

lemma wrong_otps_each:
  assumes "otp s = Some e"
  shows "list_all (\<lambda>t. strip t \<noteq> e) ts \<Longrightarrow>
         list_all (\<lambda>t. fst (snd (verify_otp_handler t s)) = Next VERIFY_OTP) ts"
  by (induction ts) (simp_all add: wrong_otp [OF assms])

text \<open>
  C5, amended. In \<open>VERIFY_OTP\<close> with a generated OTP stored (the decimal string of a
  draw between 1000 and 9999), a text that equals the OTP once its leading and trailing
  white space is removed sets \<open>verified\<close> to true, changes nothing else and moves to
  \<open>DIMENSION_CHOICE\<close>; the OTP itself is such a text. Every other text leaves the
  session exactly as it was and stays in \<open>VERIFY_OTP\<close>, and so does any number of such
  texts one after the other: no counter or other state is touched.
\<close>

theorem C5_otp_compared_after_strip:
  assumes "1000 \<le> r" and "r \<le> 9999" and "otp s = Some (generate_otp r)"
  shows "(strip text = generate_otp r \<longrightarrow>
            verify_otp_handler text s =
              (s\<lparr>verified := Some True\<rparr>, Next DIMENSION_CHOICE,
               [ReplyKeyboard (0x2705 # ustr '' Verified! Choose image dimensions:'')
                  (dim_rows 1 [] ALLOWED_DIMS)]))
     \<and> (strip text \<noteq> generate_otp r \<longrightarrow>
            verify_otp_handler text s =
              (s, Next VERIFY_OTP, [Reply (0x274C # ustr '' Wrong OTP. Please try again.'')]))
     \<and> (list_all (\<lambda>t. strip t \<noteq> generate_otp r) attempts \<longrightarrow>
            run (map VerifyOtp attempts) s = s
            \<and> list_all (\<lambda>t. fst (snd (verify_otp_handler t s)) = Next VERIFY_OTP) attempts)
     \<and> fst (verify_otp_handler (generate_otp r) s) = s\<lparr>verified := Some True\<rparr>
     \<and> fst (snd (verify_otp_handler (generate_otp r) s)) = Next DIMENSION_CHOICE"
proof -
  have ne: "generate_otp r \<noteq> []"
    by (rule generate_otp_nonempty)
  have "0 \<le> r"
    using assms(1) by simp
  then have st: "strip (generate_otp r) = generate_otp r"
    by (rule strip_generate_otp)
  show ?thesis
    using wrong_otp [OF assms(3)] right_otp [OF assms(3) ne]
      wrong_otps_run [OF assms(3)] wrong_otps_each [OF assms(3)] st
    by simp
qed

theorem C5_witness:
  "(1000::int) \<le> 4821 \<and> (4821::int) \<le> 9999 \<and> otp otp_session = Some (generate_otp 4821)
   \<and> strip (ustr ''4821 '') = generate_otp 4821
   \<and> fst (snd (verify_otp_handler (ustr ''4821 '') otp_session)) = Next DIMENSION_CHOICE
   \<and> strip (ustr ''1234'') \<noteq> generate_otp 4821
   \<and> fst (verify_otp_handler (ustr ''1234'') otp_session) = otp_session
   \<and> list_all (\<lambda>t. strip t \<noteq> generate_otp 4821) [ustr ''1234'', ustr ''48 21'', ustr ''4822'']
   \<and> run (map VerifyOtp [ustr ''1234'', ustr ''48 21'', ustr ''4822'']) otp_session
       = otp_session"
  using C5_otp_compared_after_strip [of 4821 otp_session "ustr ''4821 ''"
      "[ustr ''1234'', ustr ''48 21'', ustr ''4822'']"]
    C5_otp_compared_after_strip [of 4821 otp_session "ustr ''1234''" "[]"]
  by (simp add: otp_session_def empty_session_def generate_otp_4821 strip_def isspace_def
        ustr_simps)

subsection \<open>Editing\<close>

lemma parse_1024: "parse_dim offline_world (ustr ''1024x1024'') = Inr (1024, 1024)"
  by (simp add: parse_dim_def offline_world_def ustr_simps)

lemma offline_fails: "generate_image_async offline_world p width height = (False, None)"
  by (simp add: generate_image_async_def generate_image_sync_def offline_world_def)

lemma last_prompt_edit:
  assumes "last_prompt s = Some p" and "p \<noteq> []"
  shows "last_prompt (fst (edit_prompt_handler w uid text s))
           = Some (p @ ustr ''. Edit: '' @ strip text)"
  using assms
  by (simp add: edit_prompt_handler_def Let_def split: option.splits sum.splits prod.splits)

text \<open>
  C4, as claimed, fails: with \<^verbatim>\<open>a red fox\<close> as the last prompt and the instructions
  \<^verbatim>\<open>" add snow"\<close> (a space in front), the new last prompt is
  \<^verbatim>\<open>a red fox. Edit: add snow\<close>, not the concatenation of the three strings, which has
  two spaces after the colon: the handler strips the instructions first.
\<close>

theorem C4_counterexample:
  "last_prompt fox_session = Some (ustr ''a red fox'')
   \<and> last_prompt (fst (edit_prompt_handler offline_world 7 (ustr '' add snow'') fox_session))
       = Some (ustr ''a red fox. Edit: add snow'')
   \<and> ustr ''a red fox. Edit: add snow''
       \<noteq> ustr ''a red fox'' @ ustr ''. Edit: '' @ ustr '' add snow''"
  using last_prompt_edit [of fox_session "ustr ''a red fox''" offline_world 7
      "ustr '' add snow''"]
  by (simp add: fox_session_def empty_session_def strip_def isspace_def ustr_simps)

lemma edit_button:
  "after_image_action (ustr ''act:edit'') s =
     (s, Next EDIT_PROMPT,
      [AnswerCallback,
       Reply ([0x270F, 0xFE0F] @ ustr '' What would you like to edit in the image? ''
              @ ustr ''Describe the changes:'')])"
  by (simp add: after_image_action_def split_once_def index1_def ustr_simps)

text \<open>
  C4, amended. For every session with a non-empty last prompt, the edit handler sets the
  last prompt to the previous last prompt, then the literal \<^verbatim>\<open>". Edit: "\<close>, then the
  user's edit instructions with their leading and trailing white space removed, whatever
  happens afterwards in the handler. After the edit button is pressed again, a second
  edit chains onto this composed prompt, not onto the original one.
\<close>

theorem C4_edit_chains_stripped:
  assumes "last_prompt s = Some p" and "p \<noteq> []"
  shows "last_prompt (fst (edit_prompt_handler w uid text s))
           = Some (p @ ustr ''. Edit: '' @ strip text)
     \<and> last_prompt
         (fst (edit_prompt_handler w' uid' text'
            (fst (after_image_action (ustr ''act:edit'')
               (fst (edit_prompt_handler w uid text s))))))
           = Some ((p @ ustr ''. Edit: '' @ strip text) @ ustr ''. Edit: '' @ strip text')"
proof -
  let ?s1 = "fst (edit_prompt_handler w uid text s)"
  have first: "last_prompt ?s1 = Some (p @ ustr ''. Edit: '' @ strip text)"
    using assms by (rule last_prompt_edit)
  have button: "fst (after_image_action (ustr ''act:edit'') ?s1) = ?s1"
    by (simp only: edit_button fst_conv)
  have "p @ ustr ''. Edit: '' @ strip text \<noteq> []"
    using assms(2) by simp
  with first have "last_prompt (fst (edit_prompt_handler w' uid' text' ?s1))
      = Some ((p @ ustr ''. Edit: '' @ strip text) @ ustr ''. Edit: '' @ strip text')"
    by (rule last_prompt_edit)
  with first button show ?thesis
    by simp
qed

theorem C4_witness:
  "last_prompt fox_session = Some (ustr ''a red fox'') \<and> ustr ''a red fox'' \<noteq> []
   \<and> last_prompt (fst (edit_prompt_handler offline_world 7 (ustr '' add snow '') fox_session))
       = Some (ustr ''a red fox. Edit: add snow'')
   \<and> last_prompt
       (fst (edit_prompt_handler offline_world 7 (ustr ''at night'')
          (fst (after_image_action (ustr ''act:edit'')
             (fst (edit_prompt_handler offline_world 7 (ustr '' add snow '') fox_session))))))
       = Some (ustr ''a red fox. Edit: add snow. Edit: at night'')"
  using C4_edit_chains_stripped [of fox_session "ustr ''a red fox''" offline_world 7
      "ustr '' add snow ''" offline_world 7 "ustr ''at night''"]
  by (simp add: fox_session_def empty_session_def strip_def isspace_def ustr_simps)

subsection \<open>A prompt without a dimension\<close>

text \<open>
  C10, as claimed, fails: with no dimension in the session and the incoming text
  \<^verbatim>\<open>" a red fox"\<close> (a space in front), the conversation is ended and the last prompt
  is \<^verbatim>\<open>a red fox\<close>, which is not the incoming text.
\<close>

theorem C10_counterexample:
  "dimension empty_session = None
   \<and> fst (snd (receive_prompt_and_generate offline_world 7 (ustr '' a red fox'') empty_session))
       = End
   \<and> last_prompt
       (fst (receive_prompt_and_generate offline_world 7 (ustr '' a red fox'') empty_session))
       = Some (ustr ''a red fox'')
   \<and> ustr ''a red fox'' \<noteq> ustr '' a red fox''"
  by (simp add: receive_prompt_and_generate_def empty_session_def strip_def isspace_def
        ustr_simps)

text \<open>
  C10, amended. When the \<open>AWAIT_PROMPT\<close> handler runs with no dimension in the session,
  it ends the conversation, and the session it leaves behind is the old one with the last
  prompt set to the incoming text without its leading and trailing white space: the abort
  is not atomic with respect to the last prompt.
\<close>

theorem C10_abort_keeps_stripped_prompt:
  assumes "dimension s = None"
  shows "receive_prompt_and_generate w uid text s =
           (s\<lparr>last_prompt := Some (strip text)\<rparr>, End,
            [Reply ([0x26A0, 0xFE0F]
               @ ustr '' Dimension not set. Please /start and choose a dimension.'')])"
  using assms by (simp add: receive_prompt_and_generate_def)

theorem C10_witness:
  "dimension empty_session = None
   \<and> last_prompt empty_session = None
   \<and> last_prompt
       (fst (receive_prompt_and_generate offline_world 7 (ustr ''a red fox '') empty_session))
       = Some (ustr ''a red fox'')
   \<and> fst (snd (receive_prompt_and_generate offline_world 7 (ustr ''a red fox '') empty_session))
       = End"
  using C10_abort_keeps_stripped_prompt [of empty_session offline_world 7 "ustr ''a red fox ''"]
  by (simp add: empty_session_def strip_def isspace_def ustr_simps)

subsection \<open>The Generation Client\<close>

lemma map_of_key: "map_of kvs k = Some v \<Longrightarrow> k \<in> fst ` set kvs"
  by (metis map_of_eq_None_iff option.distinct(1))

lemma getitem_dict:
  "py_getitem j k = Some v \<Longrightarrow> \<exists>kvs. j = JDict kvs \<and> map_of kvs k = Some v"
  by (cases j) simp_all

lemma getitem0_cases:
  "py_getitem0 a = Some x \<Longrightarrow>
     (\<exists>xs. a = JList (x # xs)) \<or> (\<exists>c cs. a = JStr (c # cs) \<and> x = JStr [c])"
  by (cases a rule: py_getitem0.cases) simp_all

lemma decode_str:
  "b64decode_value w v = Some b \<Longrightarrow> \<exists>t. v = JStr t \<and> b64decode w t = Some b"
  by (cases v) simp_all

lemma sync_cases:
  "generate_image_sync w prompt width height = (False, None)
   \<or> (\<exists>b. generate_image_sync w prompt width height = (True, Some b))"
  by (simp add: generate_image_sync_def
        split: http_outcome.splits option.splits bool.splits)

lemma sync_success:
  assumes "generate_image_sync w prompt width height = (True, Some image_bytes)"
  shows "decoded_image w (http_post w prompt width height) = Some image_bytes"
  using assms
  by (auto simp add: generate_image_sync_def decoded_image_def
        split: http_outcome.splits option.splits bool.splits if_splits
        dest!: getitem_dict getitem0_cases decode_str)

lemma decoded_success:
  assumes "decoded_image w (http_post w prompt width height) = Some image_bytes"
  shows "generate_image_sync w prompt width height = (True, Some image_bytes)"
  using assms
  by (auto simp add: generate_image_sync_def decoded_image_def map_of_key
        split: http_outcome.splits option.splits json.splits list.splits if_splits)

lemma decoded_field:
  assumes "decoded_image w r = Some image_bytes"
  shows "has_base64_field r"
  using assms
  by (auto simp add: has_base64_field_def decoded_image_def map_of_key
        split: http_outcome.splits option.splits json.splits list.splits if_splits)

text \<open>
  C8, as claimed, fails: in \<open>null_field_world\<close> the request does not raise, the status
  is 200 and the first element of the non-empty \<^verbatim>\<open>artifacts\<close> list has a
  \<^verbatim>\<open>base64\<close> field, and still the client returns failure: the field holds
  \<^verbatim>\<open>null\<close>, which \<^verbatim>\<open>b64decode\<close> rejects, and the exception is caught.
\<close>

theorem C8_counterexample:
  "http_post null_field_world (ustr ''a red fox'') 1024 1024 =
     Response 200 (Some (JDict [(ustr ''artifacts'',
       JList [JDict [(ustr ''base64'', JNull)]])]))
   \<and> has_base64_field (http_post null_field_world (ustr ''a red fox'') 1024 1024)
   \<and> generate_image_sync null_field_world (ustr ''a red fox'') 1024 1024 = (False, None)"
  by (simp add: null_field_world_def offline_world_def has_base64_field_def
        generate_image_sync_def)

text \<open>
  C8, amended. The synchronous call returns success with image bytes if and only if the
  request did not raise, the status is 200, the parsed body is an object whose
  \<^verbatim>\<open>artifacts\<close> is a non-empty list, the first element of that list is an object with
  a \<^verbatim>\<open>base64\<close> field, and that field holds a string that \<^verbatim>\<open>b64decode\<close> accepts; the
  bytes are the decoded string. In every other case it returns exactly
  \<open>(False, None)\<close>. Success implies the condition of the claim; the converse is what
  fails.
\<close>

theorem C8_generation_client:
  "generate_image_sync w prompt width height =
     (case decoded_image w (http_post w prompt width height) of
        Some image_bytes \<Rightarrow> (True, Some image_bytes)
      | None \<Rightarrow> (False, None))
   \<and> (fst (generate_image_sync w prompt width height) \<longrightarrow>
        has_base64_field (http_post w prompt width height))"
proof -
  let ?g = "generate_image_sync w prompt width height"
  let ?d = "decoded_image w (http_post w prompt width height)"
  have eq: "?g = (case ?d of Some image_bytes \<Rightarrow> (True, Some image_bytes)
                          | None \<Rightarrow> (False, None))"
  proof (cases ?d)
    case None
    have "?g = (False, None)"
    proof (rule ccontr)
      assume "?g \<noteq> (False, None)"
      then obtain b where "?g = (True, Some b)"
        using sync_cases [of w prompt width height] by blast
      then have "?d = Some b"
        by (rule sync_success)
      with None show False
        by simp
    qed
    with None show ?thesis
      by simp
  next
    case (Some b)
    then have "?g = (True, Some b)"
      by (rule decoded_success)
    with Some show ?thesis
      by simp
  qed
  have "has_base64_field (http_post w prompt width height)" if "fst ?g"
  proof -
    from that obtain b where "?g = (True, Some b)"
      using sync_cases [of w prompt width height] by auto
    then have "?d = Some b"
      by (rule sync_success)
    then show ?thesis
      by (rule decoded_field)
  qed
  with eq show ?thesis
    by blast
qed

theorem C8_witness:
  "fst (generate_image_sync serving_world (ustr ''a red fox'') 1024 1024)
   \<and> has_base64_field (http_post serving_world (ustr ''a red fox'') 1024 1024)
   \<and> generate_image_sync serving_world (ustr ''a red fox'') 1024 1024 = (True, Some [1, 2, 3])
   \<and> generate_image_sync offline_world (ustr ''a red fox'') 1024 1024 = (False, None)"
  using C8_generation_client [of serving_world "ustr ''a red fox''" 1024 1024]
    C8_generation_client [of offline_world "ustr ''a red fox''" 1024 1024]
  by (simp add: serving_world_def offline_world_def decoded_image_def has_base64_field_def)

subsection \<open>A failed generation\<close>

lemma send_no_generate:
  "safe_send_image_by_bot w c i cap = (ok, es) \<Longrightarrow> Generate p a b \<notin> set es"
  by (auto simp: safe_send_image_by_bot_def Let_def split: if_splits)

lemma receive_failure:
  assumes "Generate p width height \<in> set (snd (snd (receive_prompt_and_generate w uid text s)))"
    and "generation_failed (generate_image_async w p width height)"
  shows "last_image (fst (receive_prompt_and_generate w uid text s)) = last_image s
     \<and> fst (snd (receive_prompt_and_generate w uid text s)) = Next AWAIT_PROMPT"
  using assms
  by (auto simp: receive_prompt_and_generate_def Let_def generation_failed_def
        split: option.splits sum.splits prod.splits if_splits dest: send_no_generate)

lemma regen_failure:
  assumes "Generate p width height \<in> set (snd (snd (regen_prompt_handler w uid text s)))"
    and "generation_failed (generate_image_async w p width height)"
  shows "last_image (fst (regen_prompt_handler w uid text s)) = last_image s
     \<and> fst (snd (regen_prompt_handler w uid text s)) = Next AWAIT_PROMPT"
  using assms
  by (auto simp: regen_prompt_handler_def Let_def generation_failed_def
        split: option.splits sum.splits prod.splits if_splits dest: send_no_generate)

lemma edit_failure:
  assumes "Generate p width height \<in> set (snd (snd (edit_prompt_handler w uid text s)))"
    and "generation_failed (generate_image_async w p width height)"
  shows "last_image (fst (edit_prompt_handler w uid text s)) = last_image s
     \<and> fst (snd (edit_prompt_handler w uid text s)) = Next AFTER_IMAGE"
  using assms
  by (auto simp: edit_prompt_handler_def Let_def generation_failed_def
        split: option.splits sum.splits prod.splits if_splits dest: send_no_generate)

text \<open>The three handlers in \<open>fox_session\<close> while the provider cannot be reached.\<close>

lemma receive_offline:
  "receive_prompt_and_generate offline_world 7 (ustr ''a blue cat'') fox_session =
     (fox_session\<lparr>last_prompt := Some (ustr ''a blue cat'')\<rparr>, Next AWAIT_PROMPT,
      [ChatActionUploadPhoto 7,
       Reply (0x1F3A8 # ustr '' Generating your image... this may take ''
              @ ustr ''a few seconds. Please wait '' @ [0x23F3]),
       Generate (ustr ''a blue cat'') 1024 1024,
       Reply (0x274C # ustr '' Failed to generate image. ''
              @ ustr ''Try again later or try a different prompt.'')])"
  by (simp add: receive_prompt_and_generate_def fox_session_def empty_session_def strip_def
        isspace_def Let_def parse_dim_def offline_world_def generate_image_async_def
        generate_image_sync_def ustr_simps)

lemma regen_offline:
  "regen_prompt_handler offline_world 7 (ustr ''a blue cat'') fox_session =
     (fox_session\<lparr>last_prompt := Some (ustr ''a blue cat'')\<rparr>, Next AWAIT_PROMPT,
      [ChatActionUploadPhoto 7,
       Reply (0x1F3A8 # ustr '' Generating new image... please wait '' @ [0x23F3]),
       Generate (ustr ''a blue cat'') 1024 1024,
       Reply (0x274C # ustr '' Failed to generate. Try again.'')])"
  by (simp add: regen_prompt_handler_def fox_session_def empty_session_def strip_def
        isspace_def Let_def parse_dim_def offline_world_def generate_image_async_def
        generate_image_sync_def ustr_simps)

lemma edit_offline:
  "edit_prompt_handler offline_world 7 (ustr ''add snow'') fox_session =
     (fox_session\<lparr>last_prompt := Some (ustr ''a red fox. Edit: add snow'')\<rparr>,
      Next AFTER_IMAGE,
      [ChatActionUploadPhoto 7,
       Reply (0x1F3A8 # ustr '' Applying edits... please wait '' @ [0x23F3]),
       Generate (ustr ''a red fox. Edit: add snow'') 1024 1024,
       Reply (0x274C # ustr '' Failed to edit the image. Try again.'')])"
  by (simp add: edit_prompt_handler_def fox_session_def empty_session_def strip_def isspace_def
        Let_def parse_dim_def offline_world_def generate_image_async_def generate_image_sync_def
        ustr_simps)

lemma fox_image: "last_image fox_session = Some [7, 7]"
  by (simp add: fox_session_def empty_session_def)

text \<open>
  C1, as claimed, fails at the edit call site: in \<open>fox_session\<close>, with the provider
  out of reach, the edit handler calls the Generation Client, the call fails, and the
  handler returns \<open>AFTER_IMAGE\<close>, which waits for a button and not for text.
\<close>

theorem C1_counterexample:
  "Generate (ustr ''a red fox. Edit: add snow'') 1024 1024
     \<in> set (snd (snd (edit_prompt_handler offline_world 7 (ustr ''add snow'') fox_session)))
   \<and> generation_failed
       (generate_image_async offline_world (ustr ''a red fox. Edit: add snow'') 1024 1024)
   \<and> fst (snd (edit_prompt_handler offline_world 7 (ustr ''add snow'') fox_session))
       = Next AFTER_IMAGE
   \<and> \<not> text_input_state AFTER_IMAGE"
  by (simp add: edit_offline offline_fails generation_failed_def)

text \<open>
  C1, amended. At each of the three call sites, when the handler has called the
  Generation Client and the call returned failure, the last image of the session is what
  it was before and the conversation goes on: the initial prompt handler and the
  regenerate handler return the text-input state \<open>AWAIT_PROMPT\<close>, the edit handler
  returns \<open>AFTER_IMAGE\<close>, where the buttons under the previous image are waited for.
\<close>

theorem C1_generation_failure_keeps_image:
  assumes "generation_failed (generate_image_async w p width height)"
  shows "(Generate p width height
            \<in> set (snd (snd (receive_prompt_and_generate w uid text s))) \<longrightarrow>
          last_image (fst (receive_prompt_and_generate w uid text s)) = last_image s
          \<and> fst (snd (receive_prompt_and_generate w uid text s)) = Next AWAIT_PROMPT)
     \<and> (Generate p width height
            \<in> set (snd (snd (regen_prompt_handler w uid text s))) \<longrightarrow>
          last_image (fst (regen_prompt_handler w uid text s)) = last_image s
          \<and> fst (snd (regen_prompt_handler w uid text s)) = Next AWAIT_PROMPT)
     \<and> (Generate p width height
            \<in> set (snd (snd (edit_prompt_handler w uid text s))) \<longrightarrow>
          last_image (fst (edit_prompt_handler w uid text s)) = last_image s
          \<and> fst (snd (edit_prompt_handler w uid text s)) = Next AFTER_IMAGE)
     \<and> text_input_state AWAIT_PROMPT
     \<and> \<not> text_input_state AFTER_IMAGE"
  using assms receive_failure [of p width height w uid "text" s]
    regen_failure [of p width height w uid "text" s]
    edit_failure [of p width height w uid "text" s]
  by simp

theorem C1_witness:
  "generation_failed (generate_image_async offline_world (ustr ''a blue cat'') 1024 1024)
   \<and> Generate (ustr ''a blue cat'') 1024 1024
       \<in> set (snd (snd (receive_prompt_and_generate offline_world 7 (ustr ''a blue cat'')
                          fox_session)))
   \<and> last_image (fst (receive_prompt_and_generate offline_world 7 (ustr ''a blue cat'')
                        fox_session)) = Some [7, 7]
   \<and> fst (snd (receive_prompt_and_generate offline_world 7 (ustr ''a blue cat'') fox_session))
       = Next AWAIT_PROMPT
   \<and> Generate (ustr ''a blue cat'') 1024 1024
       \<in> set (snd (snd (regen_prompt_handler offline_world 7 (ustr ''a blue cat'')
                          fox_session)))
   \<and> last_image (fst (regen_prompt_handler offline_world 7 (ustr ''a blue cat'') fox_session))
       = Some [7, 7]
   \<and> fst (snd (regen_prompt_handler offline_world 7 (ustr ''a blue cat'') fox_session))
       = Next AWAIT_PROMPT
   \<and> generation_failed
       (generate_image_async offline_world (ustr ''a red fox. Edit: add snow'') 1024 1024)
   \<and> Generate (ustr ''a red fox. Edit: add snow'') 1024 1024
       \<in> set (snd (snd (edit_prompt_handler offline_world 7 (ustr ''add snow'') fox_session)))
   \<and> last_image (fst (edit_prompt_handler offline_world 7 (ustr ''add snow'') fox_session))
       = Some [7, 7]
   \<and> fst (snd (edit_prompt_handler offline_world 7 (ustr ''add snow'') fox_session))
       = Next AFTER_IMAGE"
  using C1_generation_failure_keeps_image [of offline_world "ustr ''a blue cat''" 1024 1024
      7 "ustr ''a blue cat''" fox_session]
    C1_generation_failure_keeps_image [of offline_world "ustr ''a red fox. Edit: add snow''"
      1024 1024 7 "ustr ''add snow''" fox_session]
  by (simp add: receive_offline regen_offline edit_offline offline_fails generation_failed_def
        fox_image)

subsection \<open>A missing dimension\<close>

text \<open>
  C7, as claimed, fails for the edit handler: in the empty session the dimension is
  absent, and the handler does not end the conversation; it finds no last prompt first,
  says so and returns \<open>AWAIT_PROMPT\<close>.
\<close>

theorem C7_counterexample:
  "dimension empty_session = None
   \<and> edit_prompt_handler offline_world 7 (ustr ''add snow'') empty_session =
       (empty_session, Next AWAIT_PROMPT,
        [Reply (ustr ''Original prompt missing. Please generate an image first.'')])
   \<and> Next AWAIT_PROMPT \<noteq> End"
  by (simp add: edit_prompt_handler_def empty_session_def)

text \<open>
  C7, amended. When the dimension is absent (not in the session, or the empty string):
  the \<open>AWAIT_PROMPT\<close> handler and the \<open>REGEN_PROMPT\<close> handler end the conversation
  with one message that names \<^verbatim>\<open>/start\<close> and do not call the Generation Client; the
  \<open>EDIT_PROMPT\<close> handler does the same when the session has a non-empty last prompt;
  when it has none, the \<open>EDIT_PROMPT\<close> handler instead says that the original prompt is
  missing and returns \<open>AWAIT_PROMPT\<close>, again without calling the Generation Client.
\<close>

theorem C7_missing_dimension:
  assumes "dimension s = None \<or> dimension s = Some []"
  shows "receive_prompt_and_generate w uid text s =
           (s\<lparr>last_prompt := Some (strip text)\<rparr>, End,
            [Reply ([0x26A0, 0xFE0F]
               @ ustr '' Dimension not set. Please /start and choose a dimension.'')])
     \<and> regen_prompt_handler w uid text s =
           (s, End, [Reply (ustr ''Dimension missing. Start with /start.'')])
     \<and> (last_prompt s = Some p \<and> p \<noteq> [] \<longrightarrow>
          edit_prompt_handler w uid text s =
            (s\<lparr>last_prompt := Some (p @ ustr ''. Edit: '' @ strip text)\<rparr>, End,
             [Reply (ustr ''Dimension missing. Please /start and choose dimension.'')]))
     \<and> (last_prompt s = None \<or> last_prompt s = Some [] \<longrightarrow>
          edit_prompt_handler w uid text s =
            (s, Next AWAIT_PROMPT,
             [Reply (ustr ''Original prompt missing. Please generate an image first.'')]))
     \<and> \<not> calls_generation (receive_prompt_and_generate w uid text s)
     \<and> \<not> calls_generation (regen_prompt_handler w uid text s)
     \<and> \<not> calls_generation (edit_prompt_handler w uid text s)
     \<and> substring (ustr ''/start'')
          ([0x26A0, 0xFE0F] @ ustr '' Dimension not set. Please /start and choose a dimension.'')
     \<and> substring (ustr ''/start'') (ustr ''Dimension missing. Start with /start.'')
     \<and> substring (ustr ''/start'')
          (ustr ''Dimension missing. Please /start and choose dimension.'')"
proof -
  have r: "receive_prompt_and_generate w uid text s =
           (s\<lparr>last_prompt := Some (strip text)\<rparr>, End,
            [Reply ([0x26A0, 0xFE0F]
               @ ustr '' Dimension not set. Please /start and choose a dimension.'')])"
    using assms by (auto simp: receive_prompt_and_generate_def)
  have g: "regen_prompt_handler w uid text s =
           (s, End, [Reply (ustr ''Dimension missing. Start with /start.'')])"
    using assms by (auto simp: regen_prompt_handler_def)
  have e1: "edit_prompt_handler w uid text s =
            (s\<lparr>last_prompt := Some (q @ ustr ''. Edit: '' @ strip text)\<rparr>, End,
             [Reply (ustr ''Dimension missing. Please /start and choose dimension.'')])"
    if "last_prompt s = Some q" and "q \<noteq> []" for q
    using assms that by (auto simp: edit_prompt_handler_def Let_def)
  have e2: "edit_prompt_handler w uid text s =
            (s, Next AWAIT_PROMPT,
             [Reply (ustr ''Original prompt missing. Please generate an image first.'')])"
    if "last_prompt s = None \<or> last_prompt s = Some []"
    using that by (auto simp: edit_prompt_handler_def)
  have ne: "\<not> calls_generation (edit_prompt_handler w uid text s)"
  proof (cases "last_prompt s = None \<or> last_prompt s = Some []")
    case True
    then show ?thesis
      by (simp add: e2 calls_generation_def)
  next
    case False
    then obtain q where "last_prompt s = Some q" and "q \<noteq> []"
      by (cases "last_prompt s") auto
    then show ?thesis
      by (simp add: e1 calls_generation_def)
  qed
  have m1: "substring (ustr ''/start'')
          ([0x26A0, 0xFE0F] @ ustr '' Dimension not set. Please /start and choose a dimension.'')"
    by (simp add: startswith_def ustr_simps)
  have m2: "substring (ustr ''/start'') (ustr ''Dimension missing. Start with /start.'')"
    by (simp add: startswith_def ustr_simps)
  have m3: "substring (ustr ''/start'')
          (ustr ''Dimension missing. Please /start and choose dimension.'')"
    by (simp add: startswith_def ustr_simps)
  show ?thesis
    using e1 [of p] e2 ne m1 m2 m3 by (simp add: r g calls_generation_def)
qed

theorem C7_witness:
  "(dimension (empty_session\<lparr>last_prompt := Some (ustr ''a red fox'')\<rparr>) = None
      \<or> dimension (empty_session\<lparr>last_prompt := Some (ustr ''a red fox'')\<rparr>) = Some [])
   \<and> last_prompt (empty_session\<lparr>last_prompt := Some (ustr ''a red fox'')\<rparr>)
       = Some (ustr ''a red fox'')
   \<and> ustr ''a red fox'' \<noteq> []
   \<and> fst (snd (receive_prompt_and_generate offline_world 7 (ustr ''a blue cat'')
                  (empty_session\<lparr>last_prompt := Some (ustr ''a red fox'')\<rparr>))) = End
   \<and> fst (snd (regen_prompt_handler offline_world 7 (ustr ''a blue cat'')
                  (empty_session\<lparr>last_prompt := Some (ustr ''a red fox'')\<rparr>))) = End
   \<and> fst (snd (edit_prompt_handler offline_world 7 (ustr ''add snow'')
                  (empty_session\<lparr>last_prompt := Some (ustr ''a red fox'')\<rparr>))) = End
   \<and> (last_prompt empty_session = None \<or> last_prompt empty_session = Some [])
   \<and> fst (snd (edit_prompt_handler offline_world 7 (ustr ''add snow'') empty_session))
       = Next AWAIT_PROMPT"
  using C7_missing_dimension [of "empty_session\<lparr>last_prompt := Some (ustr ''a red fox'')\<rparr>"
      offline_world 7 "ustr ''a blue cat''" "ustr ''a red fox''"]
    C7_missing_dimension [of "empty_session\<lparr>last_prompt := Some (ustr ''a red fox'')\<rparr>"
      offline_world 7 "ustr ''add snow''" "ustr ''a red fox''"]
    C7_missing_dimension [of empty_session offline_world 7 "ustr ''add snow''" "[]"]
  by (simp add: empty_session_def ustr_simps)

end
